theory Spec2Isabelle
  imports Complex_Main "HOL-Library.Multiset" "HOL-Library.Sublist"
begin

section \<open>The VaultUSD peg simulation\<close>

text \<open>
  A shallow embedding of the class \<^verbatim>\<open>VaultUSDSimulator\<close> and of
  \<^verbatim>\<open>simulate_price_shock\<close>.

  Numbers. The source computes with Python floats. Amounts and prices are modelled as
  finite real numbers, so products, quotients and sums are exact; rounding, signed zeros
  and NaN are outside the model. The one non-finite value the source itself produces,
  \<^verbatim>\<open>float('inf')\<close>, is a constructor of the result type \<open>pyfloat\<close>.

  Objects. A \<^verbatim>\<open>Vault\<close> is a dataclass: its fields are never assigned after
  construction and its equality is field-wise, which is what \<^verbatim>\<open>list.remove\<close>
  compares with. A vault is therefore a value (a record), and the registry
  \<^verbatim>\<open>self.vaults\<close> is a list of such values, duplicates included.

  Effects. Every method takes the simulator and returns the updated one. The only
  exception the class can raise is the \<^verbatim>\<open>ValueError\<close> of \<^verbatim>\<open>list.remove\<close>.
\<close>

subsection \<open>Data\<close>

record vault =
  collateral_eth :: real
  debt_susd :: real
  owner :: string

datatype pyfloat = Fin real | PosInf

record system_state =
  total_collateral_eth :: real
  total_debt_susd :: real
  eth_price_usd :: real
  collateralization_ratio :: pyfloat
  timestamp :: int

record simulator =
  eth_price :: real
  vaults :: "vault list"
  history :: "system_state list"

datatype error = ValueError

definition COLLATERALIZATION_RATIO :: real where
  "COLLATERALIZATION_RATIO = 15 / 10"

definition LIQUIDATION_THRESHOLD :: real where
  "LIQUIDATION_THRESHOLD = 11 / 10"

text \<open>The comparisons of a health value with a finite constant: \<open>inf >= c\<close> holds,
  \<open>inf < c\<close> does not.\<close>

fun float_ge :: "pyfloat \<Rightarrow> real \<Rightarrow> bool" where
  "float_ge (Fin x) c = (x \<ge> c)"
| "float_ge PosInf c = True"

fun float_lt :: "pyfloat \<Rightarrow> real \<Rightarrow> bool" where
  "float_lt (Fin x) c = (x < c)"
| "float_lt PosInf c = False"

subsection \<open>The simulator's methods\<close>

definition init_simulator :: "real \<Rightarrow> simulator" where
  "init_simulator initial_eth_price =
     \<lparr>eth_price = initial_eth_price, vaults = [], history = []\<rparr>"

definition create_vault :: "simulator \<Rightarrow> string \<Rightarrow> real \<Rightarrow> real \<Rightarrow> vault \<times> simulator" where
  "create_vault sim own collateral debt =
     (let v = \<lparr>collateral_eth = collateral, debt_susd = debt, owner = own\<rparr>
      in (v, sim\<lparr>vaults := vaults sim @ [v]\<rparr>))"

definition get_vault_health :: "simulator \<Rightarrow> vault \<Rightarrow> pyfloat" where
  "get_vault_health sim v =
     (if debt_susd v = 0 then PosInf
      else let collateral_value = collateral_eth v * eth_price sim
           in Fin (collateral_value / debt_susd v))"

definition is_healthy :: "simulator \<Rightarrow> vault \<Rightarrow> bool" where
  "is_healthy sim v = float_ge (get_vault_health sim v) COLLATERALIZATION_RATIO"

definition is_liquidatable :: "simulator \<Rightarrow> vault \<Rightarrow> bool" where
  "is_liquidatable sim v =
     (if debt_susd v = 0 then False
      else float_lt (get_vault_health sim v) LIQUIDATION_THRESHOLD)"

text \<open>\<^verbatim>\<open>list.remove(x)\<close>: deletes the first element equal to \<open>x\<close>, and raises
  \<^verbatim>\<open>ValueError\<close> when there is none.\<close>

definition list_remove :: "'a list \<Rightarrow> 'a \<Rightarrow> error + 'a list" where
  "list_remove xs x = (if x \<in> set xs then Inr (remove1 x xs) else Inl ValueError)"

definition liquidate_vault :: "simulator \<Rightarrow> vault \<Rightarrow> error + (bool \<times> simulator)" where
  "liquidate_vault sim v =
     (if \<not> is_liquidatable sim v then Inr (False, sim)
      else case list_remove (vaults sim) v of
             Inl e \<Rightarrow> Inl e
           | Inr vs \<Rightarrow> Inr (True, sim\<lparr>vaults := vs\<rparr>))"

text \<open>The loop \<^verbatim>\<open>for vault in vaults_to_liquidate: self.liquidate_vault(vault)\<close>;
  the boolean each call returns is dropped, an exception ends the loop.\<close>

fun liquidate_each :: "simulator \<Rightarrow> vault list \<Rightarrow> error + simulator" where
  "liquidate_each sim [] = Inr sim"
| "liquidate_each sim (v # vs) =
     (case liquidate_vault sim v of
        Inl e \<Rightarrow> Inl e
      | Inr (_, sim') \<Rightarrow> liquidate_each sim' vs)"

definition update_price :: "simulator \<Rightarrow> real \<Rightarrow> error + simulator" where
  "update_price sim new_price =
     (let sim1 = sim\<lparr>eth_price := new_price\<rparr>;
          vaults_to_liquidate = filter (is_liquidatable sim1) (vaults sim1)
      in liquidate_each sim1 vaults_to_liquidate)"

text \<open>Python's \<^verbatim>\<open>sum\<close>: a left fold from 0.\<close>

definition py_sum :: "real list \<Rightarrow> real" where
  "py_sum xs = foldl (+) 0 xs"

definition get_system_state :: "simulator \<Rightarrow> int \<Rightarrow> system_state" where
  "get_system_state sim ts =
     (let total_collateral = py_sum (map collateral_eth (vaults sim));
          total_debt = py_sum (map debt_susd (vaults sim));
          ratio = (if total_debt = 0 then PosInf
                   else Fin ((total_collateral * eth_price sim) / total_debt))
      in \<lparr>total_collateral_eth = total_collateral,
          total_debt_susd = total_debt,
          eth_price_usd = eth_price sim,
          collateralization_ratio = ratio,
          timestamp = ts\<rparr>)"

definition record_state :: "simulator \<Rightarrow> int \<Rightarrow> simulator" where
  "record_state sim ts = sim\<lparr>history := history sim @ [get_system_state sim ts]\<rparr>"

subsection \<open>The scenario\<close>

text \<open>The loop of \<^verbatim>\<open>simulate_price_shock\<close> over \<^verbatim>\<open>enumerate(prices)\<close>.\<close>

fun price_loop :: "simulator \<Rightarrow> (nat \<times> real) list \<Rightarrow> error + simulator" where
  "price_loop sim [] = Inr sim"
| "price_loop sim ((i, price) # rest) =
     (case update_price sim price of
        Inl e \<Rightarrow> Inl e
      | Inr sim' \<Rightarrow> price_loop (record_state sim' (int i + 1)) rest)"

definition scenario_start :: simulator where
  "scenario_start =
     (let sim = init_simulator 2000;
          sim = snd (create_vault sim ''user1'' 10 10000);
          sim = snd (create_vault sim ''user2'' 5 5000);
          sim = snd (create_vault sim ''user3'' 3 3000)
      in record_state sim 0)"

definition scenario_prices :: "real list" where
  "scenario_prices = [2000, 1800, 1600, 1400, 1200, 1000, 800]"

definition simulate_price_shock :: "error + simulator" where
  "simulate_price_shock = price_loop scenario_start (enumerate 0 scenario_prices)"

section \<open>Properties\<close>

subsection \<open>Auxiliary facts\<close>

text \<open>Whether a vault is liquidatable depends on the simulator through its price only.\<close>

lemma is_liquidatable_vaults [simp]:
  "is_liquidatable (sim\<lparr>vaults := vs\<rparr>) v = is_liquidatable sim v"
  by (simp add: is_liquidatable_def get_vault_health_def)

lemma is_liquidatable_price:
  "eth_price sim = eth_price sim' \<Longrightarrow> is_liquidatable sim v = is_liquidatable sim' v"
  by (simp add: is_liquidatable_def get_vault_health_def)

text \<open>
  The loop of \<open>update_price\<close>, run on any arrangement of the liquidatable vaults of the
  registry: every call finds its vault still liquidatable and still present, so no call
  raises, and what is left is the registry without its liquidatable vaults, in order.
\<close>

lemma liquidate_each_filter:
  "mset ys = mset (filter (is_liquidatable sim) (vaults sim)) \<Longrightarrow>
   liquidate_each sim ys =
     Inr (sim\<lparr>vaults := filter (\<lambda>v. \<not> is_liquidatable sim v) (vaults sim)\<rparr>)"
proof (induction ys arbitrary: sim)
  case Nil
  then have "filter (is_liquidatable sim) (vaults sim) = []" by simp
  then have "filter (\<lambda>v. \<not> is_liquidatable sim v) (vaults sim) = vaults sim"
    by (simp add: filter_empty_conv)
  then show ?case by simp
next
  case (Cons y ys)
  let ?P = "is_liquidatable sim"
  let ?sim' = "sim\<lparr>vaults := remove1 y (vaults sim)\<rparr>"
  from Cons.prems have "y \<in># mset (filter ?P (vaults sim))"
    by (metis union_single_eq_member mset.simps(2))
  then have liq: "?P y" and mem: "y \<in> set (vaults sim)" by auto
  have step: "liquidate_vault sim y = Inr (True, ?sim')"
    using liq mem by (simp add: liquidate_vault_def list_remove_def)
  have "mset ys = mset (filter ?P (vaults sim)) - {#y#}"
    using Cons.prems by (metis add_mset_remove_trivial mset.simps(2))
  then have "mset ys = mset (filter (is_liquidatable ?sim') (vaults ?sim'))"
    by (simp add: filter_remove1)
  from Cons.IH [OF this]
  have "liquidate_each ?sim' ys =
          Inr (?sim'\<lparr>vaults := filter (\<lambda>v. \<not> ?P v) (remove1 y (vaults sim))\<rparr>)"
    by simp
  moreover have "filter (\<lambda>v. \<not> ?P v) (remove1 y (vaults sim)) =
                 filter (\<lambda>v. \<not> ?P v) (vaults sim)"
    using liq by (simp add: filter_remove1)
  ultimately show ?case using step by simp
qed

lemma update_price_eq:
  "update_price sim p =
     Inr (sim\<lparr>eth_price := p,
             vaults := filter (\<lambda>v. \<not> is_liquidatable (sim\<lparr>eth_price := p\<rparr>) v) (vaults sim)\<rparr>)"
  unfolding update_price_def Let_def
  by (subst liquidate_each_filter) simp_all

text \<open>Over the reals the left fold of \<open>py_sum\<close> is the sum of the list.\<close>

lemma foldl_plus_sum_list: "foldl (+) a xs = a + sum_list xs" for a :: real
  by (induction xs arbitrary: a) simp_all

lemma py_sum_sum_list: "py_sum xs = sum_list xs"
  by (simp add: py_sum_def foldl_plus_sum_list)

lemma scenario_start_eq:
  "scenario_start =
     \<lparr>eth_price = 2000,
      vaults = [\<lparr>collateral_eth = 10, debt_susd = 10000, owner = ''user1''\<rparr>,
                \<lparr>collateral_eth = 5, debt_susd = 5000, owner = ''user2''\<rparr>,
                \<lparr>collateral_eth = 3, debt_susd = 3000, owner = ''user3''\<rparr>],
      history = [\<lparr>total_collateral_eth = 18, total_debt_susd = 18000, eth_price_usd = 2000,
                  collateralization_ratio = Fin 2, timestamp = 0\<rparr>]\<rparr>"
  by (simp add: scenario_start_def init_simulator_def create_vault_def record_state_def
      get_system_state_def py_sum_def Let_def)

subsection \<open>The price update\<close>

text \<open>
  C1. For every simulator and every price, \<open>update_price\<close> returns normally; the new
  registry is the old one without the vaults that are liquidatable at the new price (so a
  vault that is not liquidatable at the new price is kept, in its place), the vaults
  removed are exactly the liquidatable ones of the registry as it stood when the scan
  began, and no vault left in the registry is liquidatable at the new price.
\<close>

theorem update_price_removes_liquidatable:
  "\<exists>sim'. update_price sim p = Inr sim' \<and> eth_price sim' = p
      \<and> vaults sim' = filter (\<lambda>v. \<not> is_liquidatable (sim\<lparr>eth_price := p\<rparr>) v) (vaults sim)
      \<and> mset (vaults sim) =
          mset (vaults sim') + mset (filter (is_liquidatable (sim\<lparr>eth_price := p\<rparr>)) (vaults sim))
      \<and> filter (is_liquidatable sim') (vaults sim') = []"
proof -
  let ?s1 = "sim\<lparr>eth_price := p\<rparr>"
  let ?keep = "filter (\<lambda>v. \<not> is_liquidatable ?s1 v) (vaults sim)"
  let ?sim' = "sim\<lparr>eth_price := p, vaults := ?keep\<rparr>"
  have same: "is_liquidatable ?sim' = is_liquidatable ?s1"
    by (rule ext) (rule is_liquidatable_price, simp)
  have "update_price sim p = Inr ?sim'" by (rule update_price_eq)
  moreover have "eth_price ?sim' = p" by simp
  moreover have "vaults ?sim' = ?keep" by simp
  moreover have "mset (vaults sim) =
      mset (vaults ?sim') + mset (filter (is_liquidatable ?s1) (vaults sim))"
    by simp
  moreover have "filter (is_liquidatable ?sim') (vaults ?sim') = []"
    unfolding same by (simp add: filter_empty_conv)
  ultimately show ?thesis by blast
qed

text \<open>
  C8. Calling \<open>update_price\<close> twice in a row with the same price: the second call
  returns the simulator the first call returned, so it removes nothing. This holds for
  every price, the positive ones among them.
\<close>

theorem update_price_idempotent:
  "\<exists>sim'. update_price sim p = Inr sim' \<and> update_price sim' p = Inr sim'"
proof -
  let ?s1 = "sim\<lparr>eth_price := p\<rparr>"
  let ?keep = "filter (\<lambda>v. \<not> is_liquidatable ?s1 v) (vaults sim)"
  let ?sim' = "sim\<lparr>eth_price := p, vaults := ?keep\<rparr>"
  have same: "is_liquidatable (?sim'\<lparr>eth_price := p\<rparr>) = is_liquidatable ?s1"
    by (rule ext) (rule is_liquidatable_price, simp)
  have "filter (\<lambda>v. \<not> is_liquidatable (?sim'\<lparr>eth_price := p\<rparr>) v) (vaults ?sim') = ?keep"
    unfolding same by simp
  then have "update_price ?sim' p = Inr ?sim'"
    by (simp add: update_price_eq)
  then show ?thesis using update_price_eq [of sim p] by blast
qed

text \<open>
  C10. \<open>update_price\<close> leaves the history as it was, sets the price, and the registry it
  returns is a subsequence of the old registry: each surviving vault is an entry of the
  old registry with the same owner, collateral and debt, in the same order.
\<close>

theorem update_price_frame:
  "\<exists>sim'. update_price sim p = Inr sim' \<and> history sim' = history sim \<and> eth_price sim' = p
      \<and> subseq (vaults sim') (vaults sim)"
  by (simp add: update_price_eq)

text \<open>
  C3 (as the code has it). \<open>update_price\<close> has no check of the price: for a price that is
  zero or negative it returns normally, with the price set and the vaults liquidatable at
  that price removed.
\<close>

theorem update_price_nonpositive:
  "p \<le> 0 \<Longrightarrow>
   update_price sim p =
     Inr (sim\<lparr>eth_price := p,
             vaults := filter (\<lambda>v. \<not> is_liquidatable (sim\<lparr>eth_price := p\<rparr>) v) (vaults sim)\<rparr>)"
  by (rule update_price_eq)

theorem update_price_nonpositive_witness:
  "(-1::real) \<le> 0 \<and>
   update_price
     \<lparr>eth_price = 2000,
      vaults = [\<lparr>collateral_eth = 10, debt_susd = 10000, owner = ''user1''\<rparr>,
                \<lparr>collateral_eth = 4, debt_susd = 0, owner = ''user2''\<rparr>],
      history = []\<rparr> (-1)
   = Inr \<lparr>eth_price = -1,
          vaults = [\<lparr>collateral_eth = 4, debt_susd = 0, owner = ''user2''\<rparr>],
          history = []\<rparr>"
  using update_price_nonpositive [of "-1"
     "\<lparr>eth_price = 2000,
      vaults = [\<lparr>collateral_eth = 10, debt_susd = 10000, owner = ''user1''\<rparr>,
                \<lparr>collateral_eth = 4, debt_susd = 0, owner = ''user2''\<rparr>],
      history = []\<rparr>"]
  by (simp add: is_liquidatable_def get_vault_health_def LIQUIDATION_THRESHOLD_def)

text \<open>
  C3 as stated fails: at price 2000 with one vault (collateral 10, debt 10000),
  \<open>update_price (-1)\<close> raises nothing, sets the price to -1 and empties the registry.
\<close>

theorem update_price_nonpositive_counterexample:
  "update_price
     \<lparr>eth_price = 2000,
      vaults = [\<lparr>collateral_eth = 10, debt_susd = 10000, owner = ''user1''\<rparr>],
      history = []\<rparr> (-1)
   = Inr \<lparr>eth_price = -1, vaults = [], history = []\<rparr>"
  by (simp add: update_price_def liquidate_vault_def list_remove_def is_liquidatable_def
      get_vault_health_def LIQUIDATION_THRESHOLD_def Let_def)

subsection \<open>Liquidation of one vault\<close>

text \<open>
  C7. For a vault of the registry: when it is not liquidatable at the current price,
  \<open>liquidate_vault\<close> returns False and the simulator unchanged; when it is, it returns
  True and the simulator with one entry equal to that vault taken out of the registry
  (price and history as before), the other entries staying as they were.
\<close>

theorem liquidate_vault_spec:
  "v \<in> set (vaults sim) \<Longrightarrow>
   liquidate_vault sim v =
     (if is_liquidatable sim v then Inr (True, sim\<lparr>vaults := remove1 v (vaults sim)\<rparr>)
      else Inr (False, sim))
   \<and> mset (remove1 v (vaults sim)) + {#v#} = mset (vaults sim)"
  by (simp add: liquidate_vault_def list_remove_def)

theorem liquidate_vault_spec_witness:
  "liquidate_vault
     \<lparr>eth_price = 1000,
      vaults = [\<lparr>collateral_eth = 10, debt_susd = 10000, owner = ''user1''\<rparr>,
                \<lparr>collateral_eth = 20, debt_susd = 10000, owner = ''user2''\<rparr>],
      history = []\<rparr>
     \<lparr>collateral_eth = 10, debt_susd = 10000, owner = ''user1''\<rparr>
   = Inr (True,
      \<lparr>eth_price = 1000,
       vaults = [\<lparr>collateral_eth = 20, debt_susd = 10000, owner = ''user2''\<rparr>],
       history = []\<rparr>)
   \<and>
   liquidate_vault
     \<lparr>eth_price = 1000,
      vaults = [\<lparr>collateral_eth = 10, debt_susd = 10000, owner = ''user1''\<rparr>,
                \<lparr>collateral_eth = 20, debt_susd = 10000, owner = ''user2''\<rparr>],
      history = []\<rparr>
     \<lparr>collateral_eth = 20, debt_susd = 10000, owner = ''user2''\<rparr>
   = Inr (False,
      \<lparr>eth_price = 1000,
       vaults = [\<lparr>collateral_eth = 10, debt_susd = 10000, owner = ''user1''\<rparr>,
                 \<lparr>collateral_eth = 20, debt_susd = 10000, owner = ''user2''\<rparr>],
       history = []\<rparr>)"
  using
    liquidate_vault_spec [of "\<lparr>collateral_eth = 10, debt_susd = 10000, owner = ''user1''\<rparr>"
     "\<lparr>eth_price = 1000,
      vaults = [\<lparr>collateral_eth = 10, debt_susd = 10000, owner = ''user1''\<rparr>,
                \<lparr>collateral_eth = 20, debt_susd = 10000, owner = ''user2''\<rparr>],
      history = []\<rparr>"]
    liquidate_vault_spec [of "\<lparr>collateral_eth = 20, debt_susd = 10000, owner = ''user2''\<rparr>"
     "\<lparr>eth_price = 1000,
      vaults = [\<lparr>collateral_eth = 10, debt_susd = 10000, owner = ''user1''\<rparr>,
                \<lparr>collateral_eth = 20, debt_susd = 10000, owner = ''user2''\<rparr>],
      history = []\<rparr>"]
  by (simp add: is_liquidatable_def get_vault_health_def LIQUIDATION_THRESHOLD_def)

text \<open>
  C4. A vault with zero debt is not liquidatable, whatever its collateral and the price.
  At a positive price, a vault with positive debt is liquidatable exactly when
  collateral \<times> price / debt is below 1.1.
\<close>

theorem is_liquidatable_spec:
  "(debt_susd v = 0 \<longrightarrow> \<not> is_liquidatable sim v) \<and>
   (0 < eth_price sim \<and> 0 < debt_susd v \<longrightarrow>
      (is_liquidatable sim v \<longleftrightarrow> collateral_eth v * eth_price sim / debt_susd v < 11 / 10))"
  by (simp add: is_liquidatable_def get_vault_health_def LIQUIDATION_THRESHOLD_def)

theorem is_liquidatable_spec_witness:
  "\<not> is_liquidatable (init_simulator 2000) \<lparr>collateral_eth = 0, debt_susd = 0, owner = ''user0''\<rparr>
   \<and> is_liquidatable (init_simulator 1000) \<lparr>collateral_eth = 10, debt_susd = 10000, owner = ''user1''\<rparr>
   \<and> \<not> is_liquidatable (init_simulator 1100) \<lparr>collateral_eth = 10, debt_susd = 10000, owner = ''user1''\<rparr>"
  using
    is_liquidatable_spec [of "\<lparr>collateral_eth = 0, debt_susd = 0, owner = ''user0''\<rparr>"
      "init_simulator 2000"]
    is_liquidatable_spec [of "\<lparr>collateral_eth = 10, debt_susd = 10000, owner = ''user1''\<rparr>"
      "init_simulator 1000"]
    is_liquidatable_spec [of "\<lparr>collateral_eth = 10, debt_susd = 10000, owner = ''user1''\<rparr>"
      "init_simulator 1100"]
  by (simp add: init_simulator_def)

subsection \<open>Opening a vault\<close>

text \<open>
  C2 (as the code has it). \<open>create_vault\<close> has no check of its amounts and cannot
  fail: for every owner, collateral and debt, negative amounts included, it builds the
  vault from its arguments, appends it at the end of the registry and returns it; price
  and history stay as they were.
\<close>

theorem create_vault_always_appends:
  "create_vault sim own collateral debt =
     (\<lparr>collateral_eth = collateral, debt_susd = debt, owner = own\<rparr>,
      sim\<lparr>vaults := vaults sim @ [\<lparr>collateral_eth = collateral, debt_susd = debt, owner = own\<rparr>]\<rparr>)"
  by (simp add: create_vault_def Let_def)

theorem create_vault_always_appends_witness:
  "create_vault (init_simulator 2000) ''user1'' (-1) 100 =
     (\<lparr>collateral_eth = -1, debt_susd = 100, owner = ''user1''\<rparr>,
      \<lparr>eth_price = 2000,
       vaults = [\<lparr>collateral_eth = -1, debt_susd = 100, owner = ''user1''\<rparr>],
       history = []\<rparr>)
   \<and> create_vault (init_simulator 2000) ''user2'' 5 (-5000) =
     (\<lparr>collateral_eth = 5, debt_susd = -5000, owner = ''user2''\<rparr>,
      \<lparr>eth_price = 2000,
       vaults = [\<lparr>collateral_eth = 5, debt_susd = -5000, owner = ''user2''\<rparr>],
       history = []\<rparr>)
   \<and> create_vault (init_simulator 2000) ''user3'' 3 3000 =
     (\<lparr>collateral_eth = 3, debt_susd = 3000, owner = ''user3''\<rparr>,
      \<lparr>eth_price = 2000,
       vaults = [\<lparr>collateral_eth = 3, debt_susd = 3000, owner = ''user3''\<rparr>],
       history = []\<rparr>)"
  using
    create_vault_always_appends [of "init_simulator 2000" "''user1''" "-1" 100]
    create_vault_always_appends [of "init_simulator 2000" "''user2''" 5 "-5000"]
    create_vault_always_appends [of "init_simulator 2000" "''user3''" 3 3000]
  by (simp add: init_simulator_def)

text \<open>
  C2 as stated fails: on a fresh simulator, \<open>create_vault\<close> with collateral -1 and debt
  100 returns a vault and leaves it in the registry.
\<close>

theorem create_vault_negative_counterexample:
  "create_vault (init_simulator 2000) ''user1'' (-1) 100 =
     (\<lparr>collateral_eth = -1, debt_susd = 100, owner = ''user1''\<rparr>,
      \<lparr>eth_price = 2000,
       vaults = [\<lparr>collateral_eth = -1, debt_susd = 100, owner = ''user1''\<rparr>],
       history = []\<rparr>)"
  by (simp add: create_vault_def init_simulator_def Let_def)

subsection \<open>Health\<close>

text \<open>
  C5. The health of a vault is the infinite sentinel when its debt is zero, and
  (collateral \<times> price) / debt otherwise. The value is a function of the vault and of the
  simulator's price alone: the registry and the history do not enter it, and since the
  method returns a value only, it changes nothing.
\<close>

theorem get_vault_health_spec:
  "get_vault_health sim v =
     (if debt_susd v = 0 then PosInf
      else Fin ((collateral_eth v * eth_price sim) / debt_susd v))
   \<and> get_vault_health (sim\<lparr>vaults := vs, history := h\<rparr>) v = get_vault_health sim v"
  by (simp add: get_vault_health_def)

subsection \<open>The system state\<close>

text \<open>
  C6. The snapshot's totals are the sums of collateral and of debt over the registry; its
  ratio is the infinite sentinel when the total debt is zero and
  (total collateral \<times> price) / total debt otherwise (when the total debt is positive in
  particular); its price is the current price. \<open>get_system_state\<close> returns the snapshot
  only, and \<open>record_state\<close>, which appends it to the history, leaves registry and price
  as they were.
\<close>

theorem get_system_state_spec:
  "total_collateral_eth (get_system_state sim ts) = sum_list (map collateral_eth (vaults sim))
   \<and> total_debt_susd (get_system_state sim ts) = sum_list (map debt_susd (vaults sim))
   \<and> collateralization_ratio (get_system_state sim ts) =
       (if total_debt_susd (get_system_state sim ts) = 0 then PosInf
        else Fin ((total_collateral_eth (get_system_state sim ts) * eth_price sim)
                   / total_debt_susd (get_system_state sim ts)))
   \<and> eth_price_usd (get_system_state sim ts) = eth_price sim
   \<and> timestamp (get_system_state sim ts) = ts
   \<and> vaults (record_state sim ts) = vaults sim
   \<and> eth_price (record_state sim ts) = eth_price sim"
  by (simp add: get_system_state_def record_state_def py_sum_sum_list Let_def)

subsection \<open>The price shock scenario\<close>

text \<open>
  C9. The scenario starts with the three vaults of user1, user2 and user3 at price 2000.
  After the updates to 2000, 1800, 1600, 1400 and 1200 (the prices of the list that are at
  least 1100) the registry still holds all three; after the update to 1000 it is empty.
  The whole run ends with an empty registry, and the last snapshot of the history has
  total debt 0 and the infinite ratio; the total debt recorded is 18000 up to the price
  1200 and 0 from the price 1000 on.
\<close>

theorem simulate_price_shock_spec:
  "vaults scenario_start =
     [\<lparr>collateral_eth = 10, debt_susd = 10000, owner = ''user1''\<rparr>,
      \<lparr>collateral_eth = 5, debt_susd = 5000, owner = ''user2''\<rparr>,
      \<lparr>collateral_eth = 3, debt_susd = 3000, owner = ''user3''\<rparr>]
   \<and> eth_price scenario_start = 2000
   \<and> map_sum id vaults (price_loop scenario_start (enumerate 0 (take 1 scenario_prices)))
        = Inr (vaults scenario_start)
   \<and> map_sum id vaults (price_loop scenario_start (enumerate 0 (take 2 scenario_prices)))
        = Inr (vaults scenario_start)
   \<and> map_sum id vaults (price_loop scenario_start (enumerate 0 (take 3 scenario_prices)))
        = Inr (vaults scenario_start)
   \<and> map_sum id vaults (price_loop scenario_start (enumerate 0 (take 4 scenario_prices)))
        = Inr (vaults scenario_start)
   \<and> map_sum id vaults (price_loop scenario_start (enumerate 0 (take 5 scenario_prices)))
        = Inr (vaults scenario_start)
   \<and> map_sum id vaults (price_loop scenario_start (enumerate 0 (take 6 scenario_prices)))
        = Inr []
   \<and> map_sum id vaults simulate_price_shock = Inr []
   \<and> map_sum id (last \<circ> history) simulate_price_shock =
        Inr \<lparr>total_collateral_eth = 0, total_debt_susd = 0, eth_price_usd = 800,
             collateralization_ratio = PosInf, timestamp = 7\<rparr>
   \<and> map_sum id (map total_debt_susd \<circ> history) simulate_price_shock =
        Inr [18000, 18000, 18000, 18000, 18000, 18000, 0, 0]"
  unfolding simulate_price_shock_def scenario_start_eq
  by (simp add: update_price_def liquidate_vault_def list_remove_def is_liquidatable_def
      get_vault_health_def LIQUIDATION_THRESHOLD_def record_state_def get_system_state_def
      py_sum_def Let_def scenario_prices_def)

end
